theory Spec2Isabelle
  imports Complex_Main
begin

section \<open>Values, rows, errors and the trace of external effects\<close>

text \<open>
  The program is the command-line driver \<^verbatim>\<open>run.py\<close> of AdsDataSqlSync. Everything it
  does to the outside world (the relational store, the message queue, the terminal) is
  recorded as a list of events, in the order the calls happen. A Python exception is a
  value: every function returns the exception it raised, if any, together with the events
  it produced before raising. External collaborators (the database driver, the queue
  client, the record constructors of the message library) are taken to succeed; what can
  fail in the model is what the text of \<^verbatim>\<open>run.py\<close> itself decides.
\<close>

datatype pyval =
    PNone
  | PBool bool
  | PInt int
  | PFloat rat
  | PStr string
  | PList "pyval list"

text \<open>A database row turned into a dictionary: keys with their values.\<close>

type_synonym row = "(string \<times> pyval) list"

datatype py_error =
    UnboundLocalError string
  | NameError string
  | AttributeError string
  | TypeError string
  | KeyError string
  | ValueError string
  | ZeroDivisionError

datatype db = IngestDB | MetricsDB

text \<open>A queue message is one record list: the records are the keyword rows they were built from.\<close>

datatype message =
    NonBibRecordList "row list"
  | MetricsRecordList "row list"

datatype event =
    LogInfo "string list"
  | Print "string list"
  | Connect db
  | Close db
  | Construct string "string list"
  | StoreCall "string list" string "string list"
  | CopyFrom string string
  | Execute string
  | FetchRow row
  | Publish message

type_synonym outcome = "py_error option \<times> event list"

definition ok :: "event list \<Rightarrow> outcome" where
  "ok evs = (None, evs)"

definition raise :: "py_error \<Rightarrow> outcome" where
  "raise e = (Some e, [])"

text \<open>Statements in sequence: the first exception ends the run and keeps the events so far.\<close>

fun run :: "outcome list \<Rightarrow> outcome" where
  "run [] = (None, [])"
| "run (p # ps) =
     (case p of
        (Some e, t) \<Rightarrow> (Some e, t)
      | (None, t) \<Rightarrow> (case run ps of (r, t') \<Rightarrow> (r, t @ t')))"

definition touches_store :: "event \<Rightarrow> bool" where
  "touches_store ev =
     (case ev of
        Connect d \<Rightarrow> True
      | Close d \<Rightarrow> True
      | StoreCall obj meth as \<Rightarrow> True
      | CopyFrom tab file \<Rightarrow> True
      | Execute q \<Rightarrow> True
      | FetchRow r \<Rightarrow> True
      | _ \<Rightarrow> False)"

definition touches_queue :: "event \<Rightarrow> bool" where
  "touches_queue ev = (case ev of Publish m \<Rightarrow> True | _ \<Rightarrow> False)"

definition runs_statement :: "event \<Rightarrow> bool" where
  "runs_statement ev =
     (case ev of
        StoreCall obj meth as \<Rightarrow> True
      | CopyFrom tab file \<Rightarrow> True
      | Execute q \<Rightarrow> True
      | FetchRow r \<Rightarrow> True
      | _ \<Rightarrow> False)"

text \<open>The messages published in a trace, in order, and the rows read from a cursor.\<close>

fun published :: "event list \<Rightarrow> message list" where
  "published [] = []"
| "published (Publish m # evs) = m # published evs"
| "published (ev # evs) = published evs"

fun records_of :: "message \<Rightarrow> row list" where
  "records_of (NonBibRecordList rs) = rs"
| "records_of (MetricsRecordList rs) = rs"

fun rows_read :: "event list \<Rightarrow> row list" where
  "rows_read [] = []"
| "rows_read (FetchRow r # evs) = r # rows_read evs"
| "rows_read (ev # evs) = rows_read evs"

section \<open>Python name resolution inside a function\<close>

text \<open>
  A name that is assigned anywhere in a function body is local to that function for the
  whole body. Reading it before its first assignment raises \<^verbatim>\<open>UnboundLocalError\<close>, also
  when a module-level name of the same spelling exists. A name that is not local is looked
  up among the module's globals.
\<close>

definition load_name :: "string list \<Rightarrow> string list \<Rightarrow> string list \<Rightarrow> string \<Rightarrow> py_error option" where
  "load_name local_names bound globals x =
     (if x \<in> set local_names
      then (if x \<in> set bound then None else Some (UnboundLocalError x))
      else (if x \<in> set globals then None else Some (NameError x)))"

text \<open>The names bound at module level by the imports and definitions of \<^verbatim>\<open>run.py\<close>.\<close>

definition module_globals :: "string list" where
  "module_globals =
     [''sys'', ''re'', ''argparse'', ''os'', ''sessionmaker'', ''select'', ''create_engine'',
      ''nonbib'', ''metrics'', ''reader'', ''load_config'', ''setup_logging'',
      ''NonBibRecord'', ''NonBibRecordList'', ''MetricsRecord'', ''MetricsRecordList'',
      ''task_output_results'', ''task_output_metrics'', ''logger'', ''config'',
      ''load_column_files'', ''nonbib_to_master_pipeline'', ''nonbib_delta_to_master_pipeline'',
      ''metrics_to_master_pipeline'', ''metrics_delta_to_master_pipeline'',
      ''diagnose_nonbib'', ''diagnose_metrics'', ''main'']"

section \<open>Dictionary operations\<close>

text \<open>\<^verbatim>\<open>d.pop(k)\<close>: removes the key, \<^verbatim>\<open>KeyError\<close> when it is absent.\<close>

definition pop :: "string \<Rightarrow> row \<Rightarrow> py_error + row" where
  "pop k d =
     (if k \<in> fst ` set d then Inr (filter (\<lambda>kv. fst kv \<noteq> k) d) else Inl (KeyError k))"

text \<open>\<^verbatim>\<open>d[k]\<close>: the value, \<^verbatim>\<open>KeyError\<close> when the key is absent.\<close>

definition getitem :: "(string \<times> 'b) list \<Rightarrow> string \<Rightarrow> py_error + 'b" where
  "getitem d k = (case map_of d k of None \<Rightarrow> Inl (KeyError k) | Some v \<Rightarrow> Inr v)"

section \<open>The forwarding operations\<close>

text \<open>
  The data the store returns is a parameter: the rows of the table of a schema, the rows
  of its delta table, and the two point lookups by bibcode.
\<close>

record store =
  nonbib_rows :: "string \<Rightarrow> row list"
  delta_rows :: "string \<Rightarrow> row list"
  get_row_view :: "string \<Rightarrow> pyval \<Rightarrow> row"
  metrics_rows :: "string \<Rightarrow> row list"
  metrics_read :: "string \<Rightarrow> pyval \<Rightarrow> row"

subsection \<open>\<^verbatim>\<open>metrics_to_master_pipeline\<close>\<close>

text \<open>
  The loop over the cursor. \<open>tmp\<close> is the batch being filled. Each row read drops its
  \<^verbatim>\<open>id\<close>, becomes a record, and is appended; when \<open>tmp\<close> has reached \<open>batch_size\<close> the batch is
  published and \<open>tmp\<close> is reset. The result carries the \<open>tmp\<close> left at the end.
\<close>

fun metrics_loop :: "int \<Rightarrow> row list \<Rightarrow> row list \<Rightarrow> py_error option \<times> row list \<times> event list" where
  "metrics_loop batch_size [] tmp = (None, tmp, [])"
| "metrics_loop batch_size (current_row # results) tmp =
     (case pop ''id'' current_row of
        Inl e \<Rightarrow> (Some e, tmp, [FetchRow current_row])
      | Inr rec \<Rightarrow>
          (let tmp' = tmp @ [rec] in
           if int (length tmp') \<ge> batch_size
           then (case metrics_loop batch_size results [] of
                   (r, tmp'', t) \<Rightarrow>
                     (r, tmp'', FetchRow current_row # Publish (MetricsRecordList tmp') # t))
           else (case metrics_loop batch_size results tmp' of
                   (r, tmp'', t) \<Rightarrow> (r, tmp'', FetchRow current_row # t))))"

definition metrics_to_master_pipeline_locals :: "string list" where
  "metrics_to_master_pipeline_locals =
     [''schema'', ''batch_size'', ''m'', ''connection'', ''s'', ''results'', ''tmp'',
      ''current_row'', ''rec'', ''recs'']"

definition metrics_to_master_pipeline :: "store \<Rightarrow> string \<Rightarrow> int \<Rightarrow> outcome" where
  "metrics_to_master_pipeline st schema batch_size =
     (case load_name metrics_to_master_pipeline_locals [''schema'', ''batch_size'']
             module_globals ''metrics'' of
        Some e \<Rightarrow> raise e
      | None \<Rightarrow>
          (case metrics_loop batch_size (metrics_rows st schema) [] of
             (Some e, tmp, t) \<Rightarrow>
               (Some e, [Construct ''Metrics'' [schema], Connect MetricsDB, Execute schema] @ t)
           | (None, tmp, t) \<Rightarrow>
               (None, [Construct ''Metrics'' [schema], Connect MetricsDB, Execute schema] @ t @
                      (if length tmp > 0 then [Publish (MetricsRecordList tmp)] else []))))"

subsection \<open>\<^verbatim>\<open>nonbib_to_master_pipeline\<close>\<close>

fun nonbib_loop :: "int \<Rightarrow> row list \<Rightarrow> row list \<Rightarrow> row list \<times> event list" where
  "nonbib_loop batch_size [] tmp = (tmp, [])"
| "nonbib_loop batch_size (current_row # results) tmp =
     (let tmp' = tmp @ [current_row] in
      if int (length tmp') \<ge> batch_size
      then (case nonbib_loop batch_size results [] of
              (tmp'', t) \<Rightarrow> (tmp'', FetchRow current_row # Publish (NonBibRecordList tmp') # t))
      else (case nonbib_loop batch_size results tmp' of
              (tmp'', t) \<Rightarrow> (tmp'', FetchRow current_row # t)))"

definition nonbib_to_master_pipeline_locals :: "string list" where
  "nonbib_to_master_pipeline_locals =
     [''schema'', ''batch_size'', ''nonbib'', ''connection'', ''s'', ''results'', ''tmp'',
      ''current_row'', ''rec'', ''recs'']"

text \<open>
  Line 50 is \<^verbatim>\<open>nonbib = nonbib.NonBib(schema)\<close>: the right-hand side reads the name
  \<^verbatim>\<open>nonbib\<close>, which the assignment itself makes local.
\<close>

definition nonbib_to_master_pipeline :: "store \<Rightarrow> string \<Rightarrow> int \<Rightarrow> outcome" where
  "nonbib_to_master_pipeline st schema batch_size =
     (case load_name nonbib_to_master_pipeline_locals [''schema'', ''batch_size'']
             module_globals ''nonbib'' of
        Some e \<Rightarrow> raise e
      | None \<Rightarrow>
          (case nonbib_loop batch_size (nonbib_rows st schema) [] of
             (tmp, t) \<Rightarrow>
               (None, [Construct ''NonBib'' [schema], Connect IngestDB, Execute schema] @ t @
                      (if length tmp > 0 then [Publish (NonBibRecordList tmp)] else []))))"

subsection \<open>\<^verbatim>\<open>nonbib_delta_to_master_pipeline\<close>\<close>

fun nonbib_delta_loop ::
  "(pyval \<Rightarrow> row) \<Rightarrow> int \<Rightarrow> row list \<Rightarrow> row list \<Rightarrow> py_error option \<times> row list \<times> event list" where
  "nonbib_delta_loop look batch_size [] tmp = (None, tmp, [])"
| "nonbib_delta_loop look batch_size (current_delta # results) tmp =
     (case getitem current_delta ''bibcode'' of
        Inl e \<Rightarrow> (Some e, tmp, [FetchRow current_delta])
      | Inr b \<Rightarrow>
          (let tmp' = tmp @ [look b] in
           if int (length tmp') \<ge> batch_size
           then (case nonbib_delta_loop look batch_size results [] of
                   (r, tmp'', t) \<Rightarrow>
                     (r, tmp'', FetchRow current_delta # FetchRow (look b)
                                # Publish (NonBibRecordList tmp') # t))
           else (case nonbib_delta_loop look batch_size results tmp' of
                   (r, tmp'', t) \<Rightarrow>
                     (r, tmp'', FetchRow current_delta # FetchRow (look b) # t))))"

definition nonbib_delta_to_master_pipeline_locals :: "string list" where
  "nonbib_delta_to_master_pipeline_locals =
     [''schema'', ''batch_size'', ''nonbib'', ''connection'', ''delta_table'', ''s'',
      ''results'', ''tmp'', ''current_delta'', ''row'', ''rec'', ''recs'']"

definition nonbib_delta_to_master_pipeline :: "store \<Rightarrow> string \<Rightarrow> int \<Rightarrow> outcome" where
  "nonbib_delta_to_master_pipeline st schema batch_size =
     (case load_name nonbib_delta_to_master_pipeline_locals [''schema'', ''batch_size'']
             module_globals ''nonbib'' of
        Some e \<Rightarrow> raise e
      | None \<Rightarrow>
          (case nonbib_delta_loop (get_row_view st schema) batch_size (delta_rows st schema) [] of
             (Some e, tmp, t) \<Rightarrow>
               (Some e, [Construct ''NonBib'' [schema], Connect IngestDB, Execute schema] @ t)
           | (None, tmp, t) \<Rightarrow>
               (None, [Construct ''NonBib'' [schema], Connect IngestDB, Execute schema] @ t @
                      (if length tmp > 0 then [Publish (NonBibRecordList tmp)] else []))))"

subsection \<open>\<^verbatim>\<open>metrics_delta_to_master_pipeline\<close>\<close>

definition metrics_delta_to_master_pipeline_locals :: "string list" where
  "metrics_delta_to_master_pipeline_locals =
     [''metrics_schema'', ''nonbib_schema'', ''batch_size'', ''m'', ''nonbib'', ''connection'',
      ''delta_table'', ''s'', ''results'', ''tmp'', ''current_delta'', ''row'', ''rec'', ''recs'']"

text \<open>
  The loop body, had it been reached: the first pass reads the row for the bibcode, drops
  its \<^verbatim>\<open>id\<close>, appends the record, and then evaluates \<^verbatim>\<open>len(recs.metrics_records)\<close> while
  \<^verbatim>\<open>recs\<close> has not been assigned yet.
\<close>

definition metrics_delta_first_pass :: "(pyval \<Rightarrow> row) \<Rightarrow> row list \<Rightarrow> outcome" where
  "metrics_delta_first_pass look results =
     (case results of
        [] \<Rightarrow> ok []
      | current_delta # rest \<Rightarrow>
          (case getitem current_delta ''bibcode'' of
             Inl e \<Rightarrow> (Some e, [FetchRow current_delta])
           | Inr b \<Rightarrow>
               (case pop ''id'' (look b) of
                  Inl e \<Rightarrow> (Some e, [FetchRow current_delta, FetchRow (look b)])
                | Inr rec \<Rightarrow>
                    (case load_name metrics_delta_to_master_pipeline_locals
                            [''metrics_schema'', ''nonbib_schema'', ''batch_size'', ''m'', ''nonbib'',
                             ''connection'', ''delta_table'', ''s'', ''results'', ''tmp'',
                             ''current_delta'', ''row'', ''rec'']
                            module_globals ''recs'' of
                       Some e \<Rightarrow> (Some e, [FetchRow current_delta, FetchRow (look b)])
                     | None \<Rightarrow> (None, [FetchRow current_delta, FetchRow (look b)])))))"

definition metrics_delta_to_master_pipeline :: "store \<Rightarrow> string \<Rightarrow> string \<Rightarrow> int \<Rightarrow> outcome" where
  "metrics_delta_to_master_pipeline st metrics_schema nonbib_schema batch_size =
     (case load_name metrics_delta_to_master_pipeline_locals
             [''metrics_schema'', ''nonbib_schema'', ''batch_size''] module_globals ''metrics'' of
        Some e \<Rightarrow> raise e
      | None \<Rightarrow>
          (case load_name metrics_delta_to_master_pipeline_locals
                  [''metrics_schema'', ''nonbib_schema'', ''batch_size'', ''m'']
                  module_globals ''nonbib'' of
             Some e \<Rightarrow> (Some e, [Construct ''Metrics'' [metrics_schema]])
           | None \<Rightarrow>
               run [ok [Construct ''Metrics'' [metrics_schema], Construct ''NonBib'' [nonbib_schema],
                        Connect IngestDB, Execute nonbib_schema],
                    metrics_delta_first_pass (metrics_read st metrics_schema)
                      (delta_rows st nonbib_schema)]))"

section \<open>Loading the column files\<close>

text \<open>
  The process configuration is a dictionary of strings. The list of column types,
  \<^verbatim>\<open>nonbib.NonBib.all_types\<close>, is declared outside \<^verbatim>\<open>run.py\<close> and is a parameter.
\<close>

type_synonym config = "(string \<times> string) list"

definition upper_char :: "char \<Rightarrow> char" where
  "upper_char c =
     (let n = (of_char c :: nat) in if 97 \<le> n \<and> n \<le> 122 then char_of (n - 32) else c)"

definition upper :: "string \<Rightarrow> string" where
  "upper s = map upper_char s"

text \<open>
  One pass of the loop of \<^verbatim>\<open>load_column_files\<close> per column type: log the table name, build
  the file name from two configuration entries, copy the file into the table and commit.
\<close>

fun copy_column_files :: "config \<Rightarrow> string \<Rightarrow> string list \<Rightarrow> outcome" where
  "copy_column_files cfg schema [] = ok []"
| "copy_column_files cfg schema (t # ts) =
     (let table_name = schema @ ''.'' @ t in
      case getitem cfg ''DATA_PATH'' of
        Inl e \<Rightarrow> (Some e, [LogInfo [''processing'', table_name]])
      | Inr data_path \<Rightarrow>
          (case getitem cfg (upper t) of
             Inl e \<Rightarrow> (Some e, [LogInfo [''processing'', table_name]])
           | Inr file \<Rightarrow>
               run [ok [LogInfo [''processing'', table_name],
                        CopyFrom table_name (data_path @ file)],
                    copy_column_files cfg schema ts]))"

definition load_column_files :: "config \<Rightarrow> string list \<Rightarrow> string \<Rightarrow> outcome" where
  "load_column_files cfg all_types schema =
     run [ok [Connect IngestDB],
          copy_column_files cfg schema all_types,
          ok [Close IngestDB,
              StoreCall [''NonBib'', schema] ''create_joined_rows'' [''nonbib_db_conn'']]]"

text \<open>A call of a function defined in \<^verbatim>\<open>run.py\<close> with a number of arguments it does not take.\<close>

definition check_args :: "string \<Rightarrow> nat \<Rightarrow> nat \<Rightarrow> nat \<Rightarrow> py_error option" where
  "check_args fname least most given =
     (if least \<le> given \<and> given \<le> most then None else Some (TypeError fname))"

section \<open>The diagnostic operations\<close>

definition print_config :: "config \<Rightarrow> string \<Rightarrow> string \<Rightarrow> string list \<Rightarrow> outcome" where
  "print_config cfg label key rest =
     (case getitem cfg key of
        Inl e \<Rightarrow> raise e
      | Inr v \<Rightarrow> ok [Print ([label, v] @ rest)])"

definition print_settings :: "config \<Rightarrow> outcome" where
  "print_settings cfg =
     run [print_config cfg ''using CELERY_BROKER'' ''CELERY_BROKER'' [],
          print_config cfg ''  CELERY_DEFAULT_EXCHANGE'' ''CELERY_DEFAULT_EXCHANGE'' [],
          print_config cfg ''  CELERY_DEFAULT_EXCHANGE_TYPE'' ''CELERY_DEFAULT_EXCHANGE_TYPE'' [],
          print_config cfg ''  OUTPUT_CELERY_BROKER'' ''OUTPUT_CELERY_BROKER'' [],
          print_config cfg ''  OUTPUT_TASKNAME'' ''OUTPUT_TASKNAME'' [],
          print_config cfg ''this action did not use ingest database (configured at''
            ''INGEST_DATABASE'' ['')''],
          print_config cfg ''  or the metrics database (at'' ''METRICS_DATABASE'' ['')'']]"

definition ints :: "int list \<Rightarrow> pyval" where
  "ints xs = PList (map PInt xs)"

definition strs :: "string list \<Rightarrow> pyval" where
  "strs xs = PList (map PStr xs)"

definition nonbib_test_data :: row where
  "nonbib_test_data =
     [(''bibcode'', PStr ''2003ASPC..295..361M''), (''id'', PInt 6473150),
      (''authors'', strs [''Mcdonald, S'', ''Buddha, S'']),
      (''refereed'', PBool False), (''simbad_objects'', PList []), (''grants'', strs [''g'']),
      (''citations'', PList []), (''boost'', PFloat (11 / 100)),
      (''citation_count'', PInt 0), (''read_count'', PInt 2), (''readers'', strs [''a'', ''b'']),
      (''downloads'', ints [0,0,0,0,0,0,0,0,0,0,0,1,2,1,0,0,1,0,0,0,1,2]),
      (''reference'', strs [''c'', ''d'']),
      (''reads'', ints [0,0,0,0,0,0,0,0,1,0,4,2,5,1,0,0,1,0,0,2,4,5])]"

definition metrics_test_data :: row where
  "metrics_test_data =
     [(''bibcode'', PStr ''2003ASPC..295..361M''), (''refereed'', PBool False),
      (''rn_citations'', PInt 0), (''rn_citation_data'', PList []),
      (''downloads'', ints [0,0,0,0,0,0,0,0,0,0,0,1,2,1,0,0,1,0,0,0,1,2]),
      (''reads'', ints [0,0,0,0,0,0,0,0,1,0,4,2,5,1,0,0,1,0,0,2,4,5]),
      (''an_citations'', PInt 0), (''refereed_citation_num'', PInt 0),
      (''citation_num'', PInt 0), (''reference_num'', PInt 0), (''citations'', PList []),
      (''refereed_citations'', PList []), (''author_num'', PInt 2),
      (''an_refereed_citations'', PInt 0)]"

definition diagnose_nonbib :: "config \<Rightarrow> outcome" where
  "diagnose_nonbib cfg =
     run [ok [Print [''sending nonbib data for bibocde'', ''2003ASPC..295..361M'',
                     ''to master pipeline'']],
          print_settings cfg,
          ok [Publish (NonBibRecordList [nonbib_test_data])]]"

definition diagnose_metrics :: "config \<Rightarrow> outcome" where
  "diagnose_metrics cfg =
     run [ok [Print [''sending metrics data for bibocde'', ''2003ASPC..295..361M'',
                     ''to master pipeline'']],
          print_settings cfg,
          ok [Publish (MetricsRecordList [metrics_test_data])]]"

section \<open>The command line and \<^verbatim>\<open>main\<close>\<close>

text \<open>
  The parsed arguments. \<open>batchSize\<close> holds what \<^verbatim>\<open>int(args.batchSize)\<close> evaluates to: the
  integer, or the exception the conversion raises. A schema name is a string, and an
  \<^verbatim>\<open>and\<close> chain of the dispatch tests it for being non-empty.
\<close>

record args =
  command :: string
  fileType :: "string option"
  rowViewSchemaName :: string
  metricsSchemaName :: string
  rowViewBaselineSchemaName :: string
  batchSize :: "py_error + int"
  diagnose :: bool

definition namespace_attrs :: "string list" where
  "namespace_attrs =
     [''fileType'', ''rowViewSchemaName'', ''metricsSchemaName'', ''rowViewBaselineSchemaName'',
      ''batchSize'', ''diagnose'', ''command'']"

text \<open>Reading an attribute of the parsed arguments that the parser never defined.\<close>

definition getattr_args :: "string \<Rightarrow> py_error option" where
  "getattr_args name =
     (if name \<in> set namespace_attrs then None else Some (AttributeError name))"

definition truthy :: "string \<Rightarrow> bool" where
  "truthy s = (s \<noteq> [])"

definition str_opt :: "string option \<Rightarrow> string" where
  "str_opt x = (case x of None \<Rightarrow> ''None'' | Some s \<Rightarrow> s)"

definition str_bool :: "bool \<Rightarrow> string" where
  "str_bool b = (if b then ''True'' else ''False'')"

record env =
  config :: config
  all_types :: "string list"
  store :: store

definition nonbib_obj :: "string \<Rightarrow> string list" where
  "nonbib_obj schema = [''NonBib'', schema]"

definition metrics_obj :: "string list \<Rightarrow> string list" where
  "metrics_obj ctor_args = ''Metrics'' # ctor_args"

definition delta_config :: "string list" where
  "delta_config = [''FROM_SCRATCH=False'', ''COPY_FROM_PROGRAM=False'']"

text \<open>The body of the \<^verbatim>\<open>runPipelines\<close> branch (lines 331 to 339).\<close>

definition run_pipelines :: "env \<Rightarrow> args \<Rightarrow> outcome" where
  "run_pipelines env a =
     (case getattr_args ''rowViewSchemaNameg'' of
        Some e \<Rightarrow> raise e
      | None \<Rightarrow>
          run [ok [Construct ''NonBib'' [rowViewSchemaName a],
                   StoreCall (nonbib_obj (rowViewSchemaName a)) ''drop_column_tables''
                     [''nonbib_db_engine''],
                   StoreCall (nonbib_obj (rowViewSchemaName a)) ''create_column_tables''
                     [''nonbib_db_engine'']],
               load_column_files (config env) (all_types env) (rowViewSchemaName a),
               ok [Construct ''Metrics'' [metricsSchemaName a],
                   StoreCall (metrics_obj [metricsSchemaName a]) ''drop_metrics_table''
                     [''metrics_db_engine''],
                   StoreCall (metrics_obj [metricsSchemaName a]) ''create_metrics_table''
                     [''metrics_db_engine''],
                   StoreCall (metrics_obj [metricsSchemaName a]) ''update_metrics_all''
                     [''metrics_db_conn'', ''nonbib_db_conn'', rowViewSchemaName a]]])"

text \<open>
  The body of the \<^verbatim>\<open>runPipelinesDelta\<close> branch (lines 343 to 358). Line 352 calls
  \<^verbatim>\<open>load_column_files(config, sql_sync)\<close>, a function of four positional parameters.
\<close>

definition run_pipelines_delta :: "env \<Rightarrow> args \<Rightarrow> outcome" where
  "run_pipelines_delta env a =
     run [ok [Construct ''NonBib'' [rowViewBaselineSchemaName a],
              StoreCall (nonbib_obj (rowViewBaselineSchemaName a)) ''drop_column_tables'' [],
              Construct ''NonBib'' [rowViewSchemaName a],
              StoreCall (nonbib_obj (rowViewSchemaName a)) ''rename_schema''
                [rowViewBaselineSchemaName a],
              Construct ''NonBib'' [rowViewSchemaName a],
              StoreCall (nonbib_obj (rowViewSchemaName a)) ''create_column_tables''
                [''nonbib_db_engine'']],
          (case check_args ''load_column_files'' 4 4 2 of
             Some e \<Rightarrow> raise e
           | None \<Rightarrow> load_column_files (config env) (all_types env) (rowViewSchemaName a)),
          ok [StoreCall (nonbib_obj (rowViewSchemaName a)) ''create_delta_rows''
                [rowViewBaselineSchemaName a],
              StoreCall (nonbib_obj (rowViewSchemaName a)) ''log_delta_reasons''
                [rowViewBaselineSchemaName a],
              Construct ''Metrics'' (metricsSchemaName a # delta_config),
              StoreCall (metrics_obj (metricsSchemaName a # delta_config))
                ''update_metrics_changed'' [rowViewSchemaName a]]]"

text \<open>The \<^verbatim>\<open>if\<close>/\<^verbatim>\<open>elif\<close> chain of \<^verbatim>\<open>main\<close> (lines 253 to 377), in the order of the source.\<close>

definition dispatch :: "env \<Rightarrow> args \<Rightarrow> outcome" where
  "dispatch env a =
    (let rv = rowViewSchemaName a; ms = metricsSchemaName a; bl = rowViewBaselineSchemaName a in
     if command a = ''help'' \<and> diagnose a then
       run [diagnose_nonbib (config env), diagnose_metrics (config env)]
     else if command a = ''createIngestTables'' then
       ok [Construct ''NonBib'' [rv],
           StoreCall (nonbib_obj rv) ''create_column_tables'' [''nonbib_db_engine'']]
     else if command a = ''dropIngestTables'' then
       ok [Construct ''NonBib'' [rv],
           StoreCall (nonbib_obj rv) ''drop_column_tables'' [''nonbib_db_engine'']]
     else if command a = ''createJoinedRows'' then
       ok [Construct ''NonBib'' [rv, ''config''],
           StoreCall (nonbib_obj rv) ''create_joined_rows'' [''nonbib_db_conn'']]
     else if command a = ''createMetricsTable'' \<and> truthy ms then
       ok [Construct ''Metrics'' [ms],
           StoreCall (metrics_obj [ms]) ''create_metrics_table'' [''metrics_db_engine'']]
     else if command a = ''dropMetricsTable'' \<and> truthy ms then
       ok [Construct ''Metrics'' [ms],
           StoreCall (metrics_obj [ms]) ''drop_metrics_table'' [''metrics_db_engine'']]
     else if command a = ''populateMetricsTable'' \<and> truthy rv \<and> truthy ms then
       ok [Construct ''Metrics'' [],
           StoreCall (metrics_obj []) ''update_metrics_all''
             [''metrics_db_conn'', ''nonbib_db_conn'', rv]]
     else if command a = ''populateMetricsTableDelta'' \<and> truthy rv \<and> truthy ms then
       ok [Construct ''Metrics'' (ms # delta_config),
           StoreCall (metrics_obj (ms # delta_config)) ''update_metrics_changed'' [rv]]
     else if command a = ''renameSchema'' \<and> truthy rv \<and> truthy bl then
       ok [Construct ''NonBib'' [rv],
           StoreCall (nonbib_obj rv) ''rename_schema'' [''nonbib_db_conn'', bl]]
     else if command a = ''createDeltaRows'' \<and> truthy rv \<and> truthy bl then
       ok [Construct ''NonBib'' [rv],
           StoreCall (nonbib_obj rv) ''create_delta_rows'' [''nonbib_db_conn'', bl]]
     else if command a = ''createNewBibcodes'' \<and> truthy rv \<and> truthy bl then
       ok [Construct ''NonBib'' [rv],
           StoreCall (nonbib_obj rv) ''build_new_bibcodes'' [''nonbib_db_conn'', bl]]
     else if command a = ''logDeltaReasons'' \<and> truthy rv \<and> truthy bl then
       ok [Construct ''NonBib'' [rv],
           StoreCall (nonbib_obj rv) ''log_delta_reasons'' [''nonbib_db_conn'', bl]]
     else if command a = ''runRowViewPipeline'' \<and> truthy rv then
       run [ok [Construct ''NonBib'' [rv],
                StoreCall (nonbib_obj rv) ''drop_column_tables'' [''nonbib_db_engine''],
                StoreCall (nonbib_obj rv) ''create_column_tables'' [''nonbib_db_engine'']],
            load_column_files (config env) (all_types env) rv]
     else if command a = ''runMetricsPipeline'' \<and> truthy rv \<and> truthy ms then
       ok [Construct ''Metrics'' [ms],
           StoreCall (metrics_obj [ms]) ''drop_metrics_table'' [''metrics_db_engine''],
           StoreCall (metrics_obj [ms]) ''create_metrics_table'' [''metrics_db_engine''],
           StoreCall (metrics_obj [ms]) ''update_metrics_all''
             [''metrics_db_conn'', ''nonbib_db_conn'', rv]]
     else if command a = ''runRowViewPipelineDelta'' \<and> truthy rv \<and> truthy bl then
       run [ok [Construct ''NonBib'' [rv],
                StoreCall (nonbib_obj rv) ''drop_column_tables'' [''nonbib_db_engine''],
                StoreCall (nonbib_obj rv) ''create_column_tables'' [''nonbib_db_engine'']],
            load_column_files (config env) (all_types env) rv,
            ok [StoreCall (nonbib_obj rv) ''create_delta_rows'' [''nonbib_db_conn'', bl],
                StoreCall (nonbib_obj rv) ''log_delta_reasons'' [''nonbib_db_conn'', bl]]]
     else if command a = ''runMetricsPipelineDelta'' \<and> truthy rv \<and> truthy ms then
       ok [Construct ''Metrics'' [ms],
           StoreCall (metrics_obj [ms]) ''update_metrics_changed''
             [''metrics_db_conn'', ''nonbib_db_conn'', rv]]
     else if command a = ''runPipelines'' \<and> truthy rv \<and> truthy ms then
       run_pipelines env a
     else if command a = ''runPipelinesDelta'' \<and> truthy rv \<and> truthy ms \<and> truthy bl then
       run_pipelines_delta env a
     else if command a = ''nonbibToMasterPipeline'' \<and> diagnose a then
       diagnose_nonbib (config env)
     else if command a = ''nonbibToMasterPipeline'' then
       (case batchSize a of
          Inl e \<Rightarrow> raise e
        | Inr n \<Rightarrow> nonbib_to_master_pipeline (store env) rv n)
     else if command a = ''nonbibDeltaToMasterPipeline'' then
       run [ok [Print [''diagnose = '', str_bool (diagnose a)]],
            (case batchSize a of
               Inl e \<Rightarrow> raise e
             | Inr n \<Rightarrow> nonbib_delta_to_master_pipeline (store env) rv n)]
     else if command a = ''metricsToMasterPipeline'' \<and> diagnose a then
       diagnose_metrics (config env)
     else if command a = ''metricsToMasterPipeline'' then
       (case batchSize a of
          Inl e \<Rightarrow> raise e
        | Inr n \<Rightarrow> metrics_to_master_pipeline (store env) ms n)
     else if command a = ''metricsDeltaToMasterPipeline'' then
       (case batchSize a of
          Inl e \<Rightarrow> raise e
        | Inr n \<Rightarrow>
            (case check_args ''nonbib_delta_to_master_pipeline'' 1 2 3 of
               Some e \<Rightarrow> raise e
             | None \<Rightarrow> nonbib_delta_to_master_pipeline (store env) ms n))
     else
       ok [Print [''app.py: illegal command or missing argument, command = '', command a],
           Print [''  row view schema name = '', rv],
           Print [''  row view baseline schema name = '', bl],
           Print [''  metrics schema name = '', ms]])"

text \<open>
  \<^verbatim>\<open>main\<close>: the start-up log line, the two database connections opened before the command
  is looked at (lines 243 to 251), the dispatch, and the closing of the ingest connection
  with the final log line when the dispatch returned.
\<close>

definition main :: "env \<Rightarrow> args \<Rightarrow> outcome" where
  "main env a =
     run [ok [LogInfo [''starting AdsDataSqlSync.app with'', command a, str_opt (fileType a)],
              Connect IngestDB,
              Connect MetricsDB],
          dispatch env a,
          ok [Close IngestDB,
              LogInfo [''completed columnFileIngest with'', command a, str_opt (fileType a)]]]"

text \<open>
  The commands the dispatch compares against, each with the conditions its branch asks
  for besides the command name. A command listed with no condition is always served.
\<close>

definition branch_guards :: "(string \<times> (args \<Rightarrow> bool)) list" where
  "branch_guards =
     [(''help'', diagnose),
      (''createIngestTables'', \<lambda>a. True),
      (''dropIngestTables'', \<lambda>a. True),
      (''createJoinedRows'', \<lambda>a. True),
      (''createMetricsTable'', \<lambda>a. truthy (metricsSchemaName a)),
      (''dropMetricsTable'', \<lambda>a. truthy (metricsSchemaName a)),
      (''populateMetricsTable'', \<lambda>a. truthy (rowViewSchemaName a) \<and> truthy (metricsSchemaName a)),
      (''populateMetricsTableDelta'',
         \<lambda>a. truthy (rowViewSchemaName a) \<and> truthy (metricsSchemaName a)),
      (''renameSchema'', \<lambda>a. truthy (rowViewSchemaName a) \<and> truthy (rowViewBaselineSchemaName a)),
      (''createDeltaRows'',
         \<lambda>a. truthy (rowViewSchemaName a) \<and> truthy (rowViewBaselineSchemaName a)),
      (''createNewBibcodes'',
         \<lambda>a. truthy (rowViewSchemaName a) \<and> truthy (rowViewBaselineSchemaName a)),
      (''logDeltaReasons'',
         \<lambda>a. truthy (rowViewSchemaName a) \<and> truthy (rowViewBaselineSchemaName a)),
      (''runRowViewPipeline'', \<lambda>a. truthy (rowViewSchemaName a)),
      (''runMetricsPipeline'', \<lambda>a. truthy (rowViewSchemaName a) \<and> truthy (metricsSchemaName a)),
      (''runRowViewPipelineDelta'',
         \<lambda>a. truthy (rowViewSchemaName a) \<and> truthy (rowViewBaselineSchemaName a)),
      (''runMetricsPipelineDelta'',
         \<lambda>a. truthy (rowViewSchemaName a) \<and> truthy (metricsSchemaName a)),
      (''runPipelines'', \<lambda>a. truthy (rowViewSchemaName a) \<and> truthy (metricsSchemaName a)),
      (''runPipelinesDelta'',
         \<lambda>a. truthy (rowViewSchemaName a) \<and> truthy (metricsSchemaName a)
              \<and> truthy (rowViewBaselineSchemaName a)),
      (''nonbibToMasterPipeline'', \<lambda>a. True),
      (''nonbibDeltaToMasterPipeline'', \<lambda>a. True),
      (''metricsToMasterPipeline'', \<lambda>a. True),
      (''metricsDeltaToMasterPipeline'', \<lambda>a. True)]"

text \<open>
  An invocation is in error when its command is none of these (unrecognised), or when the
  command is one of them and its conditions do not hold (incomplete selection).
\<close>

definition invocation_error :: "args \<Rightarrow> bool" where
  "invocation_error a =
     (case map_of branch_guards (command a) of
        None \<Rightarrow> True
      | Some guard \<Rightarrow> \<not> guard a)"

definition error_report :: "args \<Rightarrow> event list" where
  "error_report a =
     [Print [''app.py: illegal command or missing argument, command = '', command a],
      Print [''  row view schema name = '', rowViewSchemaName a],
      Print [''  row view baseline schema name = '', rowViewBaselineSchemaName a],
      Print [''  metrics schema name = '', metricsSchemaName a]]"

section \<open>The metrics engine\<close>

text \<open>
  The metrics engine (\<^verbatim>\<open>adsdata.metrics\<close>, with its \<^verbatim>\<open>row_view_to_metrics\<close>) is part of
  this repository but its text is not among the files verified here: only its unit tests
  are. Its definitions below follow section 4.3 of the specification. Numbers that the
  program holds as floating point are exact rationals here.
\<close>

record RowViewRecord =
  rv_id :: int
  rv_bibcode :: string
  rv_authors :: "string list"
  rv_refereed :: bool
  rv_citations :: "string list"
  rv_reference :: "string list"
  rv_reads :: "int list"
  rv_downloads :: "int list"
  rv_simbad_objects :: "string list"
  rv_grants :: "string list"
  rv_readers :: "string list"
  rv_boost :: rat
  rv_citation_count :: int

record rn_entry =
  rn_bibcode :: string
  pubyear :: int
  cityear :: int
  auth_norm :: rat
  ref_norm :: rat

record MetricsRecord =
  m_bibcode :: string
  m_id :: int
  citation_num :: nat
  refereed_citation_num :: nat
  reference_num :: nat
  author_num :: nat
  m_citations :: "string list"
  refereed_citations :: "string list"
  rn_citation_data :: "rn_entry list"
  rn_citations :: rat
  an_citations :: rat
  an_refereed_citations :: rat
  m_reads :: "int list"
  m_downloads :: "int list"

definition digit :: "char \<Rightarrow> int option" where
  "digit c =
     (let n = (of_char c :: nat) in if 48 \<le> n \<and> n \<le> 57 then Some (int n - 48) else None)"

text \<open>
  Modelled from the spec: the publication-year parser of the absent metrics module. The
  first four characters of a bibcode are a 4-digit publication year; a bibcode that does
  not start with four digits has no year, which is a \<^verbatim>\<open>ValueError\<close> here.
\<close>

definition publication_year :: "string \<Rightarrow> py_error + int" where
  "publication_year b =
     (case map digit (take 4 b) of
        [Some d3, Some d2, Some d1, Some d0] \<Rightarrow> Inr (1000 * d3 + 100 * d2 + 10 * d1 + d0)
      | _ \<Rightarrow> Inl (ValueError (take 4 b)))"

text \<open>
  Modelled from the spec: the age of a record in the absent metrics module,
  \<open>max(1, current_calendar_year - publication_year + 1)\<close>.
\<close>

definition age :: "int \<Rightarrow> int \<Rightarrow> int" where
  "age current_year year = max 1 (current_year - year + 1)"

text \<open>
  Modelled from the spec: the loop of the absent \<^verbatim>\<open>row_view_to_metrics\<close> over the citing
  bibcodes, in list order. The accumulator is the list of refereed citations, the list of
  weight records and the running sum of weights. A citing bibcode with no record is
  skipped. For a citing record, \<open>auth_norm\<close> is 1 over the author count of the cited record
  and \<open>ref_norm\<close> is \<open>auth_norm\<close> over the reference count of the citing record; the spec
  takes both counts to be at least 1, and a count of 0 is a division by zero.
\<close>

fun citation_loop ::
  "(string \<Rightarrow> RowViewRecord option) \<Rightarrow> int \<Rightarrow> nat \<Rightarrow> string list
     \<Rightarrow> string list \<times> rn_entry list \<times> rat \<Rightarrow> py_error + (string list \<times> rn_entry list \<times> rat)" where
  "citation_loop lookup year n_authors [] acc = Inr acc"
| "citation_loop lookup year n_authors (c # cs) (refereed_cs, data, rn_total) =
     (case lookup c of
        None \<Rightarrow> citation_loop lookup year n_authors cs (refereed_cs, data, rn_total)
      | Some r \<Rightarrow>
          (if n_authors = 0 \<or> length (rv_reference r) = 0 then Inl ZeroDivisionError
           else
             (case publication_year (rv_bibcode r) of
                Inl e \<Rightarrow> Inl e
              | Inr cy \<Rightarrow>
                  (let a_norm = 1 / of_nat n_authors;
                       r_norm = a_norm / of_nat (length (rv_reference r))
                   in citation_loop lookup year n_authors cs
                        (if rv_refereed r then refereed_cs @ [rv_bibcode r] else refereed_cs,
                         data @ [\<lparr>rn_bibcode = rv_bibcode r, pubyear = year, cityear = cy,
                                   auth_norm = a_norm, ref_norm = r_norm\<rparr>],
                         rn_total + r_norm)))))"

text \<open>
  Modelled from the spec: \<^verbatim>\<open>row_view_to_metrics\<close> of the absent metrics module. The
  cardinalities are those of the record's own lists, the pass-through fields are copied,
  and the two age-normalised counts divide by the age.
\<close>

definition row_view_to_metrics ::
  "int \<Rightarrow> (string \<Rightarrow> RowViewRecord option) \<Rightarrow> RowViewRecord \<Rightarrow> py_error + MetricsRecord" where
  "row_view_to_metrics current_year lookup rv =
     (case publication_year (rv_bibcode rv) of
        Inl e \<Rightarrow> Inl e
      | Inr year \<Rightarrow>
          (case citation_loop lookup year (length (rv_authors rv)) (rv_citations rv) ([], [], 0) of
             Inl e \<Rightarrow> Inl e
           | Inr (refereed_cs, data, rn_total) \<Rightarrow>
               Inr \<lparr>m_bibcode = rv_bibcode rv,
                    m_id = rv_id rv,
                    citation_num = length (rv_citations rv),
                    refereed_citation_num = length refereed_cs,
                    reference_num = length (rv_reference rv),
                    author_num = length (rv_authors rv),
                    m_citations = rv_citations rv,
                    refereed_citations = refereed_cs,
                    rn_citation_data = data,
                    rn_citations = rn_total,
                    an_citations = of_nat (length (rv_citations rv)) / of_int (age current_year year),
                    an_refereed_citations = of_nat (length refereed_cs) / of_int (age current_year year),
                    m_reads = rv_reads rv,
                    m_downloads = rv_downloads rv\<rparr>))"

text \<open>The records of the citing bibcodes that have one, in list order.\<close>

definition citing_records :: "(string \<Rightarrow> RowViewRecord option) \<Rightarrow> string list \<Rightarrow> RowViewRecord list" where
  "citing_records lookup cs = List.map_filter lookup cs"

definition is_refereed :: "(string \<Rightarrow> RowViewRecord option) \<Rightarrow> string \<Rightarrow> bool" where
  "is_refereed lookup c = (case lookup c of None \<Rightarrow> False | Some r \<Rightarrow> rv_refereed r)"

text \<open>
  The reference scenario (section 8, item 7): a record without citations, a cited record
  of 1997 with five authors, and its three citing records with one reference each.
\<close>

definition t1 :: RowViewRecord where
  "t1 = \<lparr>rv_id = 11, rv_bibcode = ''1998PPGeo..22..553A'', rv_authors = [''Arnfield, A. L.''],
         rv_refereed = False, rv_citations = [], rv_reference = [''1997BoLMe..85..475M''],
         rv_reads = [1, 2, 3, 4], rv_downloads = [0, 1, 2, 3], rv_simbad_objects = [],
         rv_grants = [], rv_readers = [], rv_boost = 0, rv_citation_count = 0\<rparr>"

definition t2 :: RowViewRecord where
  "t2 = \<lparr>rv_id = 3, rv_bibcode = ''1997BoLMe..85..475M'',
         rv_authors = [''Meesters, A. G. C. A.'', ''Bink, N. J.'', ''Henneken, E. A. C.'',
                       ''Vugts, H. F.'', ''Cannemeijer, F.''],
         rv_refereed = True,
         rv_citations = [''1994BoLMe..71..393V'', ''1994GPC.....9...53M'', ''1997BoLMe..85...81M''],
         rv_reference = [''1994BoLMe..71..393V'', ''1994GPC.....9...53M'', ''1997BoLMe..85...81M''],
         rv_reads = [], rv_downloads = [], rv_simbad_objects = [],
         rv_grants = [], rv_readers = [], rv_boost = 0, rv_citation_count = 3\<rparr>"

definition citer :: "string \<Rightarrow> bool \<Rightarrow> RowViewRecord" where
  "citer b r = \<lparr>rv_id = 0, rv_bibcode = b, rv_authors = [''A''], rv_refereed = r,
                rv_citations = [], rv_reference = [''1997BoLMe..85..475M''],
                rv_reads = [], rv_downloads = [], rv_simbad_objects = [],
                rv_grants = [], rv_readers = [], rv_boost = 0, rv_citation_count = 0\<rparr>"

definition t2_lookup :: "string \<Rightarrow> RowViewRecord option" where
  "t2_lookup c =
     (if c = ''1994BoLMe..71..393V'' then Some (citer c True)
      else if c = ''1994GPC.....9...53M'' then Some (citer c False)
      else if c = ''1997BoLMe..85...81M'' then Some (citer c True)
      else None)"

text \<open>
  What the engine is expected to compute for \<open>t2\<close> in the year 2017, when the record is 21
  years old.
\<close>

definition t2_expected :: MetricsRecord where
  "t2_expected =
     \<lparr>m_bibcode = ''1997BoLMe..85..475M'', m_id = 3, citation_num = 3,
      refereed_citation_num = 2, reference_num = 3, author_num = 5,
      m_citations = [''1994BoLMe..71..393V'', ''1994GPC.....9...53M'', ''1997BoLMe..85...81M''],
      refereed_citations = [''1994BoLMe..71..393V'', ''1997BoLMe..85...81M''],
      rn_citation_data =
        [\<lparr>rn_bibcode = ''1994BoLMe..71..393V'', pubyear = 1997, cityear = 1994,
          auth_norm = 1 / 5, ref_norm = 1 / 5\<rparr>,
         \<lparr>rn_bibcode = ''1994GPC.....9...53M'', pubyear = 1997, cityear = 1994,
          auth_norm = 1 / 5, ref_norm = 1 / 5\<rparr>,
         \<lparr>rn_bibcode = ''1997BoLMe..85...81M'', pubyear = 1997, cityear = 1997,
          auth_norm = 1 / 5, ref_norm = 1 / 5\<rparr>],
      rn_citations = 3 / 5, an_citations = 3 / 21, an_refereed_citations = 2 / 21,
      m_reads = [], m_downloads = []\<rparr>"

section \<open>Example inputs\<close>

text \<open>
  A store whose tables hold three rows for every schema, a configuration with the entries
  the program reads, and the parsed arguments of a command given with every option left
  at the default the parser declares (lines 219 to 227).
\<close>

definition example_rows :: "row list" where
  "example_rows =
     [[(''id'', PInt 1), (''bibcode'', PStr ''1997BoLMe..85..475M''), (''author_num'', PInt 5)],
      [(''id'', PInt 2), (''bibcode'', PStr ''1998PPGeo..22..553A''), (''author_num'', PInt 1)],
      [(''id'', PInt 3), (''bibcode'', PStr ''2003ASPC..295..361M''), (''author_num'', PInt 2)]]"

definition example_store :: store where
  "example_store =
     \<lparr>nonbib_rows = (\<lambda>schema. example_rows),
      delta_rows = (\<lambda>schema. []),
      get_row_view = (\<lambda>schema b. []),
      metrics_rows = (\<lambda>schema. example_rows),
      metrics_read = (\<lambda>schema b. [])\<rparr>"

definition example_env :: env where
  "example_env =
     \<lparr>config = [(''DATA_PATH'', ''/data/''), (''CANONICAL'', ''bibcodes.list.can'')],
      all_types = [''canonical''],
      store = example_store\<rparr>"

definition default_args :: "string \<Rightarrow> args" where
  "default_args cmd =
     \<lparr>command = cmd, fileType = None, rowViewSchemaName = ''nonbib'',
      metricsSchemaName = ''metrics'', rowViewBaselineSchemaName = ''nonbibstaging'',
      batchSize = Inr 1, diagnose = False\<rparr>"

section \<open>Name resolution in the four forwarders\<close>

lemma nonbib_unbound_in_nonbib_to_master:
  "load_name nonbib_to_master_pipeline_locals [''schema'', ''batch_size''] module_globals ''nonbib''
     = Some (UnboundLocalError ''nonbib'')"
  by (simp add: load_name_def nonbib_to_master_pipeline_locals_def)

lemma nonbib_unbound_in_nonbib_delta:
  "load_name nonbib_delta_to_master_pipeline_locals [''schema'', ''batch_size''] module_globals
     ''nonbib'' = Some (UnboundLocalError ''nonbib'')"
  by (simp add: load_name_def nonbib_delta_to_master_pipeline_locals_def)

lemma metrics_global_in_metrics_delta:
  "load_name metrics_delta_to_master_pipeline_locals
     [''metrics_schema'', ''nonbib_schema'', ''batch_size''] module_globals ''metrics'' = None"
  by (simp add: load_name_def metrics_delta_to_master_pipeline_locals_def module_globals_def)

lemma nonbib_unbound_in_metrics_delta:
  "load_name metrics_delta_to_master_pipeline_locals
     [''metrics_schema'', ''nonbib_schema'', ''batch_size'', ''m''] module_globals ''nonbib''
     = Some (UnboundLocalError ''nonbib'')"
  by (simp add: load_name_def metrics_delta_to_master_pipeline_locals_def)

lemma metrics_global_in_metrics_to_master:
  "load_name metrics_to_master_pipeline_locals [''schema'', ''batch_size''] module_globals
     ''metrics'' = None"
  by (simp add: load_name_def metrics_to_master_pipeline_locals_def module_globals_def)

lemma nonbib_to_master_raises:
  "nonbib_to_master_pipeline st schema batch_size = (Some (UnboundLocalError ''nonbib''), [])"
  by (simp add: nonbib_to_master_pipeline_def nonbib_unbound_in_nonbib_to_master raise_def)

lemma nonbib_delta_to_master_raises:
  "nonbib_delta_to_master_pipeline st schema batch_size = (Some (UnboundLocalError ''nonbib''), [])"
  by (simp add: nonbib_delta_to_master_pipeline_def nonbib_unbound_in_nonbib_delta raise_def)

lemma metrics_delta_to_master_raises:
  "metrics_delta_to_master_pipeline st metrics_schema nonbib_schema batch_size
     = (Some (UnboundLocalError ''nonbib''), [Construct ''Metrics'' [metrics_schema]])"
  by (simp add: metrics_delta_to_master_pipeline_def metrics_global_in_metrics_delta
      nonbib_unbound_in_metrics_delta)

section \<open>The three forwarders that shadow the module \<^verbatim>\<open>nonbib\<close>\<close>

text \<open>
  Claim C9. For every store, every schema argument and every batch size,
  \<^verbatim>\<open>nonbib_to_master_pipeline\<close>, \<^verbatim>\<open>nonbib_delta_to_master_pipeline\<close> and
  \<^verbatim>\<open>metrics_delta_to_master_pipeline\<close> raise \<^verbatim>\<open>UnboundLocalError\<close> for the name \<^verbatim>\<open>nonbib\<close>
  at their first use of it: the first two as their first statement, the third right after
  it has constructed its \<^verbatim>\<open>Metrics\<close> object. None of the three reads a row from a cursor
  and none publishes a queue message.
\<close>

theorem shadowed_nonbib_raises_unbound_local:
  "nonbib_to_master_pipeline st schema batch_size = (Some (UnboundLocalError ''nonbib''), [])
   \<and> nonbib_delta_to_master_pipeline st schema batch_size
       = (Some (UnboundLocalError ''nonbib''), [])
   \<and> fst (metrics_delta_to_master_pipeline st metrics_schema nonbib_schema batch_size)
       = Some (UnboundLocalError ''nonbib'')
   \<and> rows_read (snd (metrics_delta_to_master_pipeline st metrics_schema nonbib_schema batch_size)) = []
   \<and> published (snd (metrics_delta_to_master_pipeline st metrics_schema nonbib_schema batch_size)) = []"
  by (simp add: nonbib_to_master_raises nonbib_delta_to_master_raises
      metrics_delta_to_master_raises)

section \<open>The batching loop of \<^verbatim>\<open>metrics_to_master_pipeline\<close>\<close>

lemma published_append: "published (xs @ ys) = published xs @ published ys"
  by (induction xs rule: published.induct) auto

lemma rows_read_append: "rows_read (xs @ ys) = rows_read xs @ rows_read ys"
  by (induction xs rule: rows_read.induct) auto

text \<open>
  With a batch size of at least 1 and a batch in progress that is still short of it, every
  message the loop publishes holds exactly \<open>batch_size\<close> records, and the batch left over
  at the end is short of \<open>batch_size\<close> again.
\<close>

lemma metrics_loop_full_batches:
  "1 \<le> bs \<Longrightarrow> int (length tmp) < bs \<Longrightarrow> metrics_loop bs rows tmp = (r, tmp', t) \<Longrightarrow>
     (\<forall>m \<in> set (published t). int (length (records_of m)) = bs) \<and> int (length tmp') < bs"
proof (induction rows arbitrary: tmp r tmp' t)
  case Nil
  then show ?case by simp
next
  case (Cons row rows)
  show ?case
  proof (cases "pop ''id'' row")
    case (Inl e)
    with Cons.prems show ?thesis by auto
  next
    case (Inr rec)
    show ?thesis
    proof (cases "int (length (tmp @ [rec])) \<ge> bs")
      case True
      obtain r1 tmp1 t1 where rec1: "metrics_loop bs rows [] = (r1, tmp1, t1)"
        by (cases "metrics_loop bs rows []") auto
      have len: "int (length (tmp @ [rec])) = bs" using True Cons.prems(2) by simp
      from Cons.IH[OF Cons.prems(1) _ rec1] Cons.prems(1)
      have ih: "(\<forall>m \<in> set (published t1). int (length (records_of m)) = bs) \<and> int (length tmp1) < bs"
        by simp
      from Cons.prems(3) Inr True rec1
      have "t = FetchRow row # Publish (MetricsRecordList (tmp @ [rec])) # t1" "tmp' = tmp1"
        by (auto simp: Let_def)
      with ih len show ?thesis by auto
    next
      case False
      obtain r1 tmp1 t1 where rec1: "metrics_loop bs rows (tmp @ [rec]) = (r1, tmp1, t1)"
        by (cases "metrics_loop bs rows (tmp @ [rec])") auto
      from False have "int (length (tmp @ [rec])) < bs" by simp
      from Cons.IH[OF Cons.prems(1) this rec1]
      have ih: "(\<forall>m \<in> set (published t1). int (length (records_of m)) = bs) \<and> int (length tmp1) < bs" .
      from Cons.prems(3) Inr False rec1
      have "t = FetchRow row # t1" "tmp' = tmp1"
        by (auto simp: Let_def)
      with ih show ?thesis by auto
    qed
  qed
qed

text \<open>
  The records published by the loop followed by the batch left over are the batch it
  started with followed by the rows read, each without its \<^verbatim>\<open>id\<close>, in the order read.
\<close>

lemma metrics_loop_content:
  "metrics_loop bs rows tmp = (None, tmp', t) \<Longrightarrow>
     concat (map records_of (published t)) @ tmp' = tmp @ map (filter (\<lambda>kv. fst kv \<noteq> ''id'')) rows"
proof (induction rows arbitrary: tmp tmp' t)
  case Nil
  then show ?case by simp
next
  case (Cons row rows)
  then show ?case
    by (auto simp: pop_def Let_def split: if_splits prod.splits sum.splits)
qed

lemma metrics_loop_status:
  "\<forall>r \<in> set rows. ''id'' \<in> fst ` set r \<Longrightarrow> fst (metrics_loop bs rows tmp) = None"
proof (induction rows arbitrary: tmp)
  case Nil
  then show ?case by simp
next
  case (Cons row rows)
  then have ih: "\<And>tmp. fst (metrics_loop bs rows tmp) = None" by simp
  from Cons.prems have p: "pop ''id'' row = Inr (filter (\<lambda>kv. fst kv \<noteq> ''id'') row)"
    by (simp add: pop_def)
  show ?case
    using ih[of "[]"] ih[of "tmp @ [filter (\<lambda>kv. fst kv \<noteq> ''id'') row]"] p
    by (auto simp: Let_def split: prod.splits)
qed

lemma metrics_loop_rows_read:
  "metrics_loop bs rows tmp = (None, tmp', t) \<Longrightarrow> rows_read t = rows"
  by (induction rows arbitrary: tmp tmp' t)
     (auto simp: pop_def Let_def split: if_splits prod.splits sum.splits)

lemma metrics_loop_count:
  "metrics_loop bs rows tmp = (None, tmp', t) \<Longrightarrow> 1 \<le> bs \<Longrightarrow> int (length tmp) < bs \<Longrightarrow>
     int (length tmp) + int (length rows) = bs * int (length (published t)) + int (length tmp')"
proof (induction rows arbitrary: tmp tmp' t)
  case Nil
  then show ?case by simp
next
  case (Cons row rows)
  show ?case
  proof (cases "pop ''id'' row")
    case (Inl e)
    with Cons.prems show ?thesis by auto
  next
    case (Inr rec)
    show ?thesis
    proof (cases "int (length (tmp @ [rec])) \<ge> bs")
      case True
      obtain r1 tmp1 t1 where rec1: "metrics_loop bs rows [] = (r1, tmp1, t1)"
        by (cases "metrics_loop bs rows []") auto
      have len: "int (length (tmp @ [rec])) = bs" using True Cons.prems(3) by simp
      from Cons.prems(1) Inr True rec1
      have eqs: "t = FetchRow row # Publish (MetricsRecordList (tmp @ [rec])) # t1" "tmp' = tmp1" "r1 = None"
        by (auto simp: Let_def)
      from Cons.IH[OF rec1[unfolded eqs(3)] Cons.prems(2)] Cons.prems(2)
      have "int (length rows) = bs * int (length (published t1)) + int (length tmp1)" by simp
      with eqs len show ?thesis by (simp add: algebra_simps)
    next
      case False
      obtain r1 tmp1 t1 where rec1: "metrics_loop bs rows (tmp @ [rec]) = (r1, tmp1, t1)"
        by (cases "metrics_loop bs rows (tmp @ [rec])") auto
      from False have lt: "int (length (tmp @ [rec])) < bs" by simp
      from Cons.prems(1) Inr False rec1
      have eqs: "t = FetchRow row # t1" "tmp' = tmp1" "r1 = None"
        by (auto simp: Let_def)
      from Cons.IH[OF rec1[unfolded eqs(3)] Cons.prems(2) lt]
      show ?thesis using eqs by simp
    qed
  qed
qed

lemma metrics_pipeline_status:
  "metrics_loop bs (metrics_rows st schema) [] = (r, tmp, t) \<Longrightarrow>
     fst (metrics_to_master_pipeline st schema bs) = r"
  by (cases r) (simp_all add: metrics_to_master_pipeline_def metrics_global_in_metrics_to_master)

lemma metrics_pipeline_published:
  "metrics_loop bs (metrics_rows st schema) [] = (r, tmp, t) \<Longrightarrow>
     published (snd (metrics_to_master_pipeline st schema bs))
       = published t @ (if r = None \<and> tmp \<noteq> [] then [MetricsRecordList tmp] else [])"
  by (cases r)
     (simp_all add: metrics_to_master_pipeline_def metrics_global_in_metrics_to_master
        published_append)

lemma metrics_pipeline_rows_read:
  "metrics_loop bs (metrics_rows st schema) [] = (r, tmp, t) \<Longrightarrow>
     rows_read (snd (metrics_to_master_pipeline st schema bs)) = rows_read t"
  by (cases r)
     (simp_all add: metrics_to_master_pipeline_def metrics_global_in_metrics_to_master
        rows_read_append)

lemma remainder_zero:
  fixes n k l bs :: int
  assumes "n = bs * k + l" "0 \<le> l" "l < bs" "n mod bs = 0"
  shows "l = 0"
proof -
  have "n mod bs = l mod bs" using assms(1) by simp
  also have "\<dots> = l" using assms(2,3) by simp
  finally show ?thesis using assms(4) by simp
qed

text \<open>The function on the example store, with batch sizes 2, 3 and 0.\<close>

lemma example_run_2:
  "metrics_to_master_pipeline example_store ''metrics'' 2 =
     (None, [Construct ''Metrics'' [''metrics''], Connect MetricsDB, Execute ''metrics'',
             FetchRow (example_rows ! 0), FetchRow (example_rows ! 1),
             Publish (MetricsRecordList
               [[(''bibcode'', PStr ''1997BoLMe..85..475M''), (''author_num'', PInt 5)],
                [(''bibcode'', PStr ''1998PPGeo..22..553A''), (''author_num'', PInt 1)]]),
             FetchRow (example_rows ! 2),
             Publish (MetricsRecordList
               [[(''bibcode'', PStr ''2003ASPC..295..361M''), (''author_num'', PInt 2)]])])"
  by (simp add: metrics_to_master_pipeline_def metrics_global_in_metrics_to_master
      example_store_def example_rows_def pop_def)

lemma example_run_3:
  "metrics_to_master_pipeline example_store ''metrics'' 3 =
     (None, [Construct ''Metrics'' [''metrics''], Connect MetricsDB, Execute ''metrics'',
             FetchRow (example_rows ! 0), FetchRow (example_rows ! 1), FetchRow (example_rows ! 2),
             Publish (MetricsRecordList
               [[(''bibcode'', PStr ''1997BoLMe..85..475M''), (''author_num'', PInt 5)],
                [(''bibcode'', PStr ''1998PPGeo..22..553A''), (''author_num'', PInt 1)],
                [(''bibcode'', PStr ''2003ASPC..295..361M''), (''author_num'', PInt 2)]])])"
  by (simp add: metrics_to_master_pipeline_def metrics_global_in_metrics_to_master
      example_store_def example_rows_def pop_def)

lemma example_run_0:
  "metrics_to_master_pipeline example_store ''metrics'' 0 =
     (None, [Construct ''Metrics'' [''metrics''], Connect MetricsDB, Execute ''metrics'',
             FetchRow (example_rows ! 0),
             Publish (MetricsRecordList
               [[(''bibcode'', PStr ''1997BoLMe..85..475M''), (''author_num'', PInt 5)]]),
             FetchRow (example_rows ! 1),
             Publish (MetricsRecordList
               [[(''bibcode'', PStr ''1998PPGeo..22..553A''), (''author_num'', PInt 1)]]),
             FetchRow (example_rows ! 2),
             Publish (MetricsRecordList
               [[(''bibcode'', PStr ''2003ASPC..295..361M''), (''author_num'', PInt 2)]])])"
  by (simp add: metrics_to_master_pipeline_def metrics_global_in_metrics_to_master
      example_store_def example_rows_def pop_def)

text \<open>
  Claim C10, as amended. For a batch size of at least 1, every message that
  \<^verbatim>\<open>metrics_to_master_pipeline\<close> publishes holds at least one and at most \<open>batch_size\<close>
  records, and every message but the last holds exactly \<open>batch_size\<close>. When the function
  returns and the number of rows is a multiple of \<open>batch_size\<close>, every message is full
  and there are as many messages as the quotient says: no empty final message is sent.
  The bound on \<open>batch_size\<close> is needed: the claim as written has none.
\<close>

theorem metrics_messages_bounded:
  assumes bs: "1 \<le> batch_size"
  shows "(\<forall>m \<in> set (published (snd (metrics_to_master_pipeline st schema batch_size))).
            1 \<le> length (records_of m) \<and> int (length (records_of m)) \<le> batch_size)
       \<and> (\<forall>m \<in> set (butlast (published (snd (metrics_to_master_pipeline st schema batch_size)))).
            int (length (records_of m)) = batch_size)
       \<and> (fst (metrics_to_master_pipeline st schema batch_size) = None
            \<and> int (length (metrics_rows st schema)) mod batch_size = 0
          \<longrightarrow> (\<forall>m \<in> set (published (snd (metrics_to_master_pipeline st schema batch_size))).
                 int (length (records_of m)) = batch_size)
              \<and> int (length (published (snd (metrics_to_master_pipeline st schema batch_size))))
                  * batch_size = int (length (metrics_rows st schema)))"
proof -
  obtain r tmp t where loop: "metrics_loop batch_size (metrics_rows st schema) [] = (r, tmp, t)"
    by (cases "metrics_loop batch_size (metrics_rows st schema) []") auto
  let ?msgs = "published (snd (metrics_to_master_pipeline st schema batch_size))"
  have msgs: "?msgs = published t @ (if r = None \<and> tmp \<noteq> [] then [MetricsRecordList tmp] else [])"
    by (rule metrics_pipeline_published[OF loop])
  have status: "fst (metrics_to_master_pipeline st schema batch_size) = r"
    by (rule metrics_pipeline_status[OF loop])
  from metrics_loop_full_batches[OF bs _ loop] bs
  have full: "\<forall>m \<in> set (published t). int (length (records_of m)) = batch_size"
    and rest: "int (length tmp) < batch_size"
    by simp_all
  have c1: "\<forall>m \<in> set ?msgs. 1 \<le> length (records_of m) \<and> int (length (records_of m)) \<le> batch_size"
  proof
    fix m assume "m \<in> set ?msgs"
    then consider "m \<in> set (published t)" | "m = MetricsRecordList tmp" "tmp \<noteq> []"
      unfolding msgs by (auto split: if_splits)
    then show "1 \<le> length (records_of m) \<and> int (length (records_of m)) \<le> batch_size"
    proof cases
      case 1
      with full have "int (length (records_of m)) = batch_size" by simp
      with bs show ?thesis by simp
    next
      case 2
      with rest show ?thesis by (cases tmp) simp_all
    qed
  qed
  have c2: "\<forall>m \<in> set (butlast ?msgs). int (length (records_of m)) = batch_size"
  proof
    fix m assume "m \<in> set (butlast ?msgs)"
    then have "m \<in> set (published t)"
      unfolding msgs by (auto split: if_splits dest: in_set_butlastD)
    with full show "int (length (records_of m)) = batch_size" by simp
  qed
  have c3: "fst (metrics_to_master_pipeline st schema batch_size) = None
            \<and> int (length (metrics_rows st schema)) mod batch_size = 0
          \<longrightarrow> (\<forall>m \<in> set ?msgs. int (length (records_of m)) = batch_size)
              \<and> int (length ?msgs) * batch_size = int (length (metrics_rows st schema))"
  proof
    assume a: "fst (metrics_to_master_pipeline st schema batch_size) = None
            \<and> int (length (metrics_rows st schema)) mod batch_size = 0"
    with status have r: "r = None" by simp
    from metrics_loop_count[OF loop[unfolded r] bs] bs
    have cnt: "int (length (metrics_rows st schema))
                 = batch_size * int (length (published t)) + int (length tmp)"
      by simp
    have "int (length tmp) = 0"
      by (rule remainder_zero[OF cnt _ rest]) (use a in simp_all)
    then have "tmp = []" by simp
    with msgs have "?msgs = published t" by simp
    with full cnt \<open>tmp = []\<close> show "(\<forall>m \<in> set ?msgs. int (length (records_of m)) = batch_size)
              \<and> int (length ?msgs) * batch_size = int (length (metrics_rows st schema))"
      by (simp add: mult.commute)
  qed
  from c1 c2 c3 show ?thesis by blast
qed

text \<open>
  The theorem at batch sizes 2 and 3 on the three example rows: a full message and a final
  one of a single record, and one full message with nothing after it.
\<close>

theorem metrics_messages_bounded_witness:
  "(1::int) \<le> 2
   \<and> map records_of (published (snd (metrics_to_master_pipeline example_store ''metrics'' 2)))
       = [[[(''bibcode'', PStr ''1997BoLMe..85..475M''), (''author_num'', PInt 5)],
           [(''bibcode'', PStr ''1998PPGeo..22..553A''), (''author_num'', PInt 1)]],
          [[(''bibcode'', PStr ''2003ASPC..295..361M''), (''author_num'', PInt 2)]]]
   \<and> int (length (metrics_rows example_store ''metrics'')) mod 3 = 0
   \<and> length (published (snd (metrics_to_master_pipeline example_store ''metrics'' 3))) = 1"
proof -
  have rows: "int (length (metrics_rows example_store ''metrics'')) mod 3 = 0"
    by (simp add: example_store_def example_rows_def)
  show ?thesis
    using rows metrics_messages_bounded[of 2 example_store "''metrics''"]
          metrics_messages_bounded[of 3 example_store "''metrics''"]
    by (simp add: example_run_2 example_run_3)
qed

text \<open>
  With \<^verbatim>\<open>batch_size = 0\<close>, a value that \<^verbatim>\<open>int(args.batchSize)\<close> can produce, the test
  \<^verbatim>\<open>len(tmp) >= batch_size\<close> holds after every row: each message holds one record, which
  is more than \<open>batch_size\<close>.
\<close>

theorem zero_batch_size_message_exceeds_bound:
  "\<not> (\<forall>m \<in> set (published (snd (metrics_to_master_pipeline example_store ''metrics'' 0))).
         1 \<le> length (records_of m) \<and> int (length (records_of m)) \<le> 0)"
  by (simp add: example_run_0)

text \<open>
  Claim C6. When every row of the metrics table has an \<^verbatim>\<open>id\<close>, \<^verbatim>\<open>metrics_to_master_pipeline\<close>
  returns normally, reads every row, and the records it publishes, taken over all its
  messages in order, are the rows read with the \<^verbatim>\<open>id\<close> entry removed and every other
  entry as it was. This holds for every batch size. (The other function that pops the
  \<^verbatim>\<open>id\<close>, \<^verbatim>\<open>metrics_delta_to_master_pipeline\<close>, raises before it reads a row and so
  forwards nothing.)
\<close>

theorem metrics_forwarder_drops_id:
  assumes "\<forall>r \<in> set (metrics_rows st schema). ''id'' \<in> fst ` set r"
  shows "fst (metrics_to_master_pipeline st schema batch_size) = None
       \<and> rows_read (snd (metrics_to_master_pipeline st schema batch_size)) = metrics_rows st schema
       \<and> concat (map records_of (published (snd (metrics_to_master_pipeline st schema batch_size))))
           = map (filter (\<lambda>kv. fst kv \<noteq> ''id'')) (metrics_rows st schema)"
proof -
  obtain r tmp t where loop: "metrics_loop batch_size (metrics_rows st schema) [] = (r, tmp, t)"
    by (cases "metrics_loop batch_size (metrics_rows st schema) []") auto
  from metrics_loop_status[OF assms, of batch_size "[]"] loop have r: "r = None" by simp
  note loop' = loop[unfolded r]
  have "fst (metrics_to_master_pipeline st schema batch_size) = None"
    using metrics_pipeline_status[OF loop] r by simp
  moreover have "rows_read (snd (metrics_to_master_pipeline st schema batch_size)) = metrics_rows st schema"
    using metrics_pipeline_rows_read[OF loop] metrics_loop_rows_read[OF loop'] by simp
  moreover have "concat (map records_of (published (snd (metrics_to_master_pipeline st schema batch_size))))
           = map (filter (\<lambda>kv. fst kv \<noteq> ''id'')) (metrics_rows st schema)"
    using metrics_pipeline_published[OF loop] metrics_loop_content[OF loop'] r
    by (cases "tmp = []") simp_all
  ultimately show ?thesis by blast
qed

theorem metrics_forwarder_drops_id_witness:
  "concat (map records_of (published (snd (metrics_to_master_pipeline example_store ''metrics'' 2))))
     = [[(''bibcode'', PStr ''1997BoLMe..85..475M''), (''author_num'', PInt 5)],
        [(''bibcode'', PStr ''1998PPGeo..22..553A''), (''author_num'', PInt 1)],
        [(''bibcode'', PStr ''2003ASPC..295..361M''), (''author_num'', PInt 2)]]
   \<and> metrics_rows example_store ''metrics''
     = [[(''id'', PInt 1), (''bibcode'', PStr ''1997BoLMe..85..475M''), (''author_num'', PInt 5)],
        [(''id'', PInt 2), (''bibcode'', PStr ''1998PPGeo..22..553A''), (''author_num'', PInt 1)],
        [(''id'', PInt 3), (''bibcode'', PStr ''2003ASPC..295..361M''), (''author_num'', PInt 2)]]"
  using metrics_forwarder_drops_id[of example_store "''metrics''" 2]
  by (simp add: example_store_def example_rows_def)

text \<open>
  Claim C5. The batching that the claim describes is what \<^verbatim>\<open>metrics_to_master_pipeline\<close>
  does, but \<^verbatim>\<open>nonbib_to_master_pipeline\<close> does not: on a table of three rows and a batch
  size of 1 it raises \<^verbatim>\<open>UnboundLocalError\<close> at line 50 and publishes no message, also
  when it is reached from the command line through \<^verbatim>\<open>main\<close>.
\<close>

theorem nonbib_forwarder_publishes_nothing:
  "nonbib_rows example_store ''nonbib'' = example_rows
   \<and> length example_rows = 3
   \<and> nonbib_to_master_pipeline example_store ''nonbib'' 1 = (Some (UnboundLocalError ''nonbib''), [])
   \<and> published (snd (nonbib_to_master_pipeline example_store ''nonbib'' 1)) = []
   \<and> main example_env (default_args ''nonbibToMasterPipeline'')
       = (Some (UnboundLocalError ''nonbib''),
          [LogInfo [''starting AdsDataSqlSync.app with'', ''nonbibToMasterPipeline'', ''None''],
           Connect IngestDB, Connect MetricsDB])"
  by (simp add: nonbib_to_master_raises main_def dispatch_def default_args_def example_env_def
      example_store_def example_rows_def str_opt_def ok_def truthy_def)

section \<open>Invocation errors\<close>

lemma invocation_error_guards:
  assumes "invocation_error a"
  shows "\<not> (command a = ''help'' \<and> diagnose a)"
    and "command a \<noteq> ''createIngestTables''"
    and "command a \<noteq> ''dropIngestTables''"
    and "command a \<noteq> ''createJoinedRows''"
    and "\<not> (command a = ''createMetricsTable'' \<and> truthy (metricsSchemaName a))"
    and "\<not> (command a = ''dropMetricsTable'' \<and> truthy (metricsSchemaName a))"
    and "\<not> (command a = ''populateMetricsTable'' \<and> truthy (rowViewSchemaName a)
             \<and> truthy (metricsSchemaName a))"
    and "\<not> (command a = ''populateMetricsTableDelta'' \<and> truthy (rowViewSchemaName a)
             \<and> truthy (metricsSchemaName a))"
    and "\<not> (command a = ''renameSchema'' \<and> truthy (rowViewSchemaName a)
             \<and> truthy (rowViewBaselineSchemaName a))"
    and "\<not> (command a = ''createDeltaRows'' \<and> truthy (rowViewSchemaName a)
             \<and> truthy (rowViewBaselineSchemaName a))"
    and "\<not> (command a = ''createNewBibcodes'' \<and> truthy (rowViewSchemaName a)
             \<and> truthy (rowViewBaselineSchemaName a))"
    and "\<not> (command a = ''logDeltaReasons'' \<and> truthy (rowViewSchemaName a)
             \<and> truthy (rowViewBaselineSchemaName a))"
    and "\<not> (command a = ''runRowViewPipeline'' \<and> truthy (rowViewSchemaName a))"
    and "\<not> (command a = ''runMetricsPipeline'' \<and> truthy (rowViewSchemaName a)
             \<and> truthy (metricsSchemaName a))"
    and "\<not> (command a = ''runRowViewPipelineDelta'' \<and> truthy (rowViewSchemaName a)
             \<and> truthy (rowViewBaselineSchemaName a))"
    and "\<not> (command a = ''runMetricsPipelineDelta'' \<and> truthy (rowViewSchemaName a)
             \<and> truthy (metricsSchemaName a))"
    and "\<not> (command a = ''runPipelines'' \<and> truthy (rowViewSchemaName a)
             \<and> truthy (metricsSchemaName a))"
    and "\<not> (command a = ''runPipelinesDelta'' \<and> truthy (rowViewSchemaName a)
             \<and> truthy (metricsSchemaName a) \<and> truthy (rowViewBaselineSchemaName a))"
    and "command a \<noteq> ''nonbibToMasterPipeline''"
    and "command a \<noteq> ''nonbibDeltaToMasterPipeline''"
    and "command a \<noteq> ''metricsToMasterPipeline''"
    and "command a \<noteq> ''metricsDeltaToMasterPipeline''"
  using assms by (auto simp: invocation_error_def branch_guards_def)

lemma invocation_error_dispatch:
  assumes "invocation_error a"
  shows "dispatch env a = ok (error_report a)"
  unfolding dispatch_def Let_def error_report_def
  by (simp only: invocation_error_guards[OF assms] if_False) simp

text \<open>
  Claim C7, as amended. For an invocation with an unrecognised command or an incomplete
  selection, \<^verbatim>\<open>main\<close> logs its start, opens the connections to the ingest and the metrics
  database, prints the command and the three schema names, closes the ingest connection
  and logs its end. It returns normally, and no event of the run executes a statement on
  the store or publishes to the queue.
\<close>

theorem invocation_error_reports_and_runs_nothing:
  assumes "invocation_error a"
  shows "main env a =
           (None, [LogInfo [''starting AdsDataSqlSync.app with'', command a, str_opt (fileType a)],
                   Connect IngestDB, Connect MetricsDB]
                  @ error_report a
                  @ [Close IngestDB,
                     LogInfo [''completed columnFileIngest with'', command a, str_opt (fileType a)]])
       \<and> (\<forall>ev \<in> set (snd (main env a)). \<not> runs_statement ev \<and> \<not> touches_queue ev)"
proof -
  have m: "main env a =
           (None, [LogInfo [''starting AdsDataSqlSync.app with'', command a, str_opt (fileType a)],
                   Connect IngestDB, Connect MetricsDB]
                  @ error_report a
                  @ [Close IngestDB,
                     LogInfo [''completed columnFileIngest with'', command a, str_opt (fileType a)]])"
    by (simp add: main_def invocation_error_dispatch[OF assms] ok_def)
  show ?thesis
    unfolding m by (simp add: error_report_def runs_statement_def touches_queue_def)
qed

theorem invocation_error_reports_and_runs_nothing_witness:
  "invocation_error (default_args ''bogus'')
   \<and> main example_env (default_args ''bogus'') =
       (None, [LogInfo [''starting AdsDataSqlSync.app with'', ''bogus'', ''None''],
               Connect IngestDB, Connect MetricsDB,
               Print [''app.py: illegal command or missing argument, command = '', ''bogus''],
               Print [''  row view schema name = '', ''nonbib''],
               Print [''  row view baseline schema name = '', ''nonbibstaging''],
               Print [''  metrics schema name = '', ''metrics''],
               Close IngestDB,
               LogInfo [''completed columnFileIngest with'', ''bogus'', ''None'']])"
proof -
  have h: "invocation_error (default_args ''bogus'')"
    by (simp add: invocation_error_def branch_guards_def default_args_def)
  show ?thesis
    using h invocation_error_reports_and_runs_nothing[OF h, of example_env]
    by (simp add: error_report_def default_args_def str_opt_def)
qed

text \<open>
  The claim as written says that such an invocation does not touch the store. It does: the
  two connections are opened at lines 246 and 251, before the command is looked at.
\<close>

theorem invalid_command_opens_store_connections:
  "invocation_error (default_args ''bogus'')
   \<and> \<not> (\<forall>ev \<in> set (snd (main example_env (default_args ''bogus''))).
           \<not> touches_store ev \<and> \<not> touches_queue ev)"
  by (simp add: invocation_error_def branch_guards_def default_args_def main_def dispatch_def
      ok_def touches_store_def)

section \<open>The combined pipelines\<close>

text \<open>
  Claim C8. With every schema name present (the parser's defaults), neither combined
  command runs its phases to completion. \<^verbatim>\<open>runPipelines\<close> reads the attribute
  \<^verbatim>\<open>rowViewSchemaNameg\<close> (line 331), which the parser never defines, and raises
  \<^verbatim>\<open>AttributeError\<close> before its first phase. \<^verbatim>\<open>runPipelinesDelta\<close> calls
  \<^verbatim>\<open>load_column_files\<close> with two arguments (line 352) where it takes four, and raises
  \<^verbatim>\<open>TypeError\<close> right after the column tables were created: no file is loaded, no delta
  and no metrics are computed.
\<close>

theorem combined_pipelines_abort:
  "main example_env (default_args ''runPipelines'')
     = (Some (AttributeError ''rowViewSchemaNameg''),
        [LogInfo [''starting AdsDataSqlSync.app with'', ''runPipelines'', ''None''],
         Connect IngestDB, Connect MetricsDB])
   \<and> fst (main example_env (default_args ''runPipelinesDelta''))
       = Some (TypeError ''load_column_files'')
   \<and> last (snd (main example_env (default_args ''runPipelinesDelta'')))
       = StoreCall [''NonBib'', ''nonbib''] ''create_column_tables'' [''nonbib_db_engine'']"
  by (simp add: main_def dispatch_def default_args_def ok_def raise_def truthy_def str_opt_def
      run_pipelines_def run_pipelines_delta_def getattr_args_def namespace_attrs_def
      check_args_def nonbib_obj_def Let_def)

section \<open>Properties of the metrics engine\<close>

lemma map_filter_Cons_None: "f x = None \<Longrightarrow> List.map_filter f (x # xs) = List.map_filter f xs"
  by (simp add: List.map_filter_def)

lemma map_filter_Cons_Some: "f x = Some y \<Longrightarrow> List.map_filter f (x # xs) = y # List.map_filter f xs"
  by (simp add: List.map_filter_def)

text \<open>
  What the loop over the citing bibcodes adds to its accumulator when it returns: the
  bibcodes of the refereed citing records, one weight record per citing record, and the
  sum of the weights added.
\<close>

lemma citation_loop_result:
  "citation_loop lookup year n cs (refs, data, tot) = Inr (refs', data', tot') \<Longrightarrow>
     refs' = refs @ map rv_bibcode (filter rv_refereed (citing_records lookup cs))
   \<and> map rn_bibcode data' = map rn_bibcode data @ map rv_bibcode (citing_records lookup cs)
   \<and> map ref_norm data'
       = map ref_norm data
         @ map (\<lambda>r. 1 / of_nat n / of_nat (length (rv_reference r))) (citing_records lookup cs)
   \<and> map auth_norm data' = map auth_norm data @ map (\<lambda>r. 1 / of_nat n) (citing_records lookup cs)
   \<and> tot' = tot + sum_list (map ref_norm data') - sum_list (map ref_norm data)"
proof (induction cs arbitrary: refs data tot)
  case Nil
  then show ?case by (simp add: citing_records_def List.map_filter_def)
next
  case (Cons c cs)
  show ?case
  proof (cases "lookup c")
    case None
    with Cons.prems have "citation_loop lookup year n cs (refs, data, tot) = Inr (refs', data', tot')"
      by simp
    from Cons.IH[OF this] None show ?thesis
      by (simp add: citing_records_def map_filter_Cons_None)
  next
    case (Some r)
    from Cons.prems Some obtain cy where cy: "publication_year (rv_bibcode r) = Inr cy"
      and nz: "n \<noteq> 0" "length (rv_reference r) \<noteq> 0"
      by (auto split: if_splits sum.splits)
    let ?e = "\<lparr>rn_bibcode = rv_bibcode r, pubyear = year, cityear = cy,
               auth_norm = 1 / of_nat n, ref_norm = 1 / of_nat n / of_nat (length (rv_reference r))\<rparr>"
    from Cons.prems Some cy nz
    have "citation_loop lookup year n cs
            (if rv_refereed r then refs @ [rv_bibcode r] else refs, data @ [?e],
             tot + 1 / of_nat n / of_nat (length (rv_reference r))) = Inr (refs', data', tot')"
      by (simp add: Let_def)
    from Cons.IH[OF this] Some show ?thesis
      by (simp add: citing_records_def map_filter_Cons_Some)
  qed
qed

text \<open>
  The loop returns when the cited record has an author and every citing record has a
  reference and a bibcode that starts with a year.
\<close>

lemma citation_loop_returns:
  "0 < n \<Longrightarrow>
   \<forall>r \<in> set (citing_records lookup cs).
      rv_reference r \<noteq> [] \<and> (\<exists>y. publication_year (rv_bibcode r) = Inr y) \<Longrightarrow>
   \<exists>res. citation_loop lookup year n cs acc = Inr res"
proof (induction cs arbitrary: acc)
  case Nil
  show ?case by (cases acc) simp
next
  case (Cons c cs)
  obtain refs data tot where acc: "acc = (refs, data, tot)" by (cases acc) auto
  show ?case
  proof (cases "lookup c")
    case None
    with Cons show ?thesis
      by (simp add: acc citing_records_def map_filter_Cons_None)
  next
    case (Some r)
    with Cons.prems obtain y where y: "publication_year (rv_bibcode r) = Inr y"
      and ref: "rv_reference r \<noteq> []"
      and rest: "\<forall>r \<in> set (citing_records lookup cs).
                   rv_reference r \<noteq> [] \<and> (\<exists>y. publication_year (rv_bibcode r) = Inr y)"
      by (auto simp: citing_records_def map_filter_Cons_Some)
    from Cons.IH[OF Cons.prems(1) rest] Some y ref Cons.prems(1) show ?thesis
      by (simp add: acc Let_def)
  qed
qed

lemma keyed_refereed:
  "\<forall>c \<in> set cs. \<forall>r. lookup c = Some r \<longrightarrow> rv_bibcode r = c \<Longrightarrow>
     map rv_bibcode (filter rv_refereed (citing_records lookup cs)) = filter (is_refereed lookup) cs"
proof (induction cs)
  case Nil
  then show ?case by (simp add: citing_records_def List.map_filter_def)
next
  case (Cons c cs)
  then show ?case
    by (cases "lookup c")
       (auto simp: citing_records_def map_filter_Cons_None map_filter_Cons_Some is_refereed_def)
qed

lemma row_view_to_metrics_Inr:
  "row_view_to_metrics current_year lookup rv = Inr m \<Longrightarrow>
     \<exists>year refs data tot.
       publication_year (rv_bibcode rv) = Inr year
     \<and> citation_loop lookup year (length (rv_authors rv)) (rv_citations rv) ([], [], 0)
         = Inr (refs, data, tot)
     \<and> citation_num m = length (rv_citations rv)
     \<and> refereed_citation_num m = length refs
     \<and> author_num m = length (rv_authors rv)
     \<and> refereed_citations m = refs
     \<and> rn_citation_data m = data
     \<and> rn_citations m = tot
     \<and> an_citations m = of_nat (length (rv_citations rv)) / of_int (age current_year year)
     \<and> an_refereed_citations m = of_nat (length refs) / of_int (age current_year year)"
  by (auto simp: row_view_to_metrics_def split: sum.splits)

lemma publication_year_t1: "publication_year (rv_bibcode t1) = Inr 1998"
  by (simp add: publication_year_def t1_def digit_def)

lemma publication_year_t2: "publication_year (rv_bibcode t2) = Inr 1997"
  by (simp add: publication_year_def t2_def digit_def)

lemma t2_metrics: "row_view_to_metrics 2017 t2_lookup t2 = Inr t2_expected"
  by (simp add: row_view_to_metrics_def publication_year_def t2_def t2_lookup_def citer_def
      digit_def age_def Let_def t2_expected_def)

text \<open>
  Claim C1. For a record whose citation list is empty and whose bibcode starts with a
  year, the engine returns a metrics record with \<open>refereed_citation_num = 0\<close>,
  \<open>rn_citations = 0\<close>, an empty \<open>rn_citation_data\<close>, \<open>an_citations = 0\<close> and
  \<open>an_refereed_citations = 0\<close>, whatever the lookup and the current year are.
\<close>

theorem no_citations_zero_counts:
  assumes "rv_citations rv = []" and "publication_year (rv_bibcode rv) = Inr year"
  shows "\<exists>m. row_view_to_metrics current_year lookup rv = Inr m
            \<and> refereed_citation_num m = 0 \<and> rn_citations m = 0 \<and> rn_citation_data m = []
            \<and> an_citations m = 0 \<and> an_refereed_citations m = 0"
  using assms by (simp add: row_view_to_metrics_def)

theorem no_citations_zero_counts_witness:
  "rv_citations t1 = [] \<and> publication_year (rv_bibcode t1) = Inr 1998
   \<and> (\<exists>m. row_view_to_metrics 2017 Map.empty t1 = Inr m
            \<and> refereed_citation_num m = 0 \<and> rn_citations m = 0 \<and> rn_citation_data m = []
            \<and> an_citations m = 0 \<and> an_refereed_citations m = 0)"
proof -
  have h: "rv_citations t1 = []" by (simp add: t1_def)
  show ?thesis
    using h publication_year_t1 no_citations_zero_counts[OF h publication_year_t1, of 2017 Map.empty]
    by simp
qed

text \<open>
  Claim C2. When the engine returns a metrics record and the lookup answers each citing
  bibcode with a record of that bibcode, \<open>refereed_citations\<close> is the citation list
  filtered to the bibcodes whose record is refereed, in the order of the citation list, and
  its length is \<open>refereed_citation_num\<close>.
\<close>

theorem refereed_citations_in_order:
  assumes "row_view_to_metrics current_year lookup rv = Inr m"
    and "\<forall>c \<in> set (rv_citations rv). \<forall>r. lookup c = Some r \<longrightarrow> rv_bibcode r = c"
  shows "refereed_citations m = filter (is_refereed lookup) (rv_citations rv)
       \<and> length (refereed_citations m) = refereed_citation_num m"
proof -
  from row_view_to_metrics_Inr[OF assms(1)] obtain year refs data tot where
    loop: "citation_loop lookup year (length (rv_authors rv)) (rv_citations rv) ([], [], 0)
             = Inr (refs, data, tot)"
    and m: "refereed_citations m = refs" "refereed_citation_num m = length refs"
    by blast
  from citation_loop_result[OF loop]
  have "refs = map rv_bibcode (filter rv_refereed (citing_records lookup (rv_citations rv)))"
    by simp
  with keyed_refereed[OF assms(2)] m show ?thesis by simp
qed

theorem refereed_citations_in_order_witness:
  "row_view_to_metrics 2017 t2_lookup t2 = Inr t2_expected
   \<and> refereed_citations t2_expected = [''1994BoLMe..71..393V'', ''1997BoLMe..85...81M'']
   \<and> filter (is_refereed t2_lookup) (rv_citations t2)
       = [''1994BoLMe..71..393V'', ''1997BoLMe..85...81M'']
   \<and> refereed_citation_num t2_expected = 2"
proof -
  have keyed: "\<forall>c \<in> set (rv_citations t2). \<forall>r. t2_lookup c = Some r \<longrightarrow> rv_bibcode r = c"
    by (simp add: t2_def t2_lookup_def citer_def)
  show ?thesis
    using t2_metrics refereed_citations_in_order[OF t2_metrics keyed]
    by (simp add: t2_expected_def)
qed

text \<open>
  Claim C3. When the engine returns a metrics record, \<open>rn_citations\<close> is the sum of the
  \<open>ref_norm\<close> fields of \<open>rn_citation_data\<close>; the \<open>ref_norm\<close> of the entry of a citing record
  is 1 over the author count of the cited record, divided by the number of references of
  the citing record; and every \<open>auth_norm\<close> is 1 over that author count. The numbers are
  exact rationals, so the sum is exact.
\<close>

theorem weights_sum_to_rn_citations:
  assumes "row_view_to_metrics current_year lookup rv = Inr m"
  shows "rn_citations m = sum_list (map ref_norm (rn_citation_data m))
       \<and> map ref_norm (rn_citation_data m)
           = map (\<lambda>r. 1 / of_nat (author_num m) / of_nat (length (rv_reference r)))
               (citing_records lookup (rv_citations rv))
       \<and> map auth_norm (rn_citation_data m)
           = map (\<lambda>r. 1 / of_nat (author_num m)) (citing_records lookup (rv_citations rv))"
proof -
  from row_view_to_metrics_Inr[OF assms] obtain year refs data tot where
    loop: "citation_loop lookup year (length (rv_authors rv)) (rv_citations rv) ([], [], 0)
             = Inr (refs, data, tot)"
    and m: "rn_citations m = tot" "rn_citation_data m = data"
           "author_num m = length (rv_authors rv)"
    by blast
  from citation_loop_result[OF loop] m show ?thesis by simp
qed

theorem weights_sum_to_rn_citations_witness:
  "row_view_to_metrics 2017 t2_lookup t2 = Inr t2_expected
   \<and> rn_citations t2_expected = 3 / 5
   \<and> map ref_norm (rn_citation_data t2_expected) = [1 / 5, 1 / 5, 1 / 5]
   \<and> map auth_norm (rn_citation_data t2_expected) = [1 / 5, 1 / 5, 1 / 5]"
  using t2_metrics weights_sum_to_rn_citations[OF t2_metrics]
  by (simp add: t2_expected_def)

text \<open>
  Claim C4. When the engine returns a metrics record, the first four characters of the
  bibcode parse to a year, and with \<open>age = max 1 (current_year - year + 1)\<close> the record has
  \<open>an_citations = citation_num / age\<close> and
  \<open>an_refereed_citations = refereed_citation_num / age\<close>.
\<close>

theorem age_normalised_counts:
  assumes "row_view_to_metrics current_year lookup rv = Inr m"
  shows "\<exists>year. publication_year (take 4 (rv_bibcode rv)) = Inr year
         \<and> an_citations m = of_nat (citation_num m) / of_int (max 1 (current_year - year + 1))
         \<and> an_refereed_citations m
             = of_nat (refereed_citation_num m) / of_int (max 1 (current_year - year + 1))"
proof -
  from row_view_to_metrics_Inr[OF assms] obtain year refs data tot where
    y: "publication_year (rv_bibcode rv) = Inr year"
    and m: "citation_num m = length (rv_citations rv)" "refereed_citation_num m = length refs"
       "refereed_citations m = refs"
       "an_citations m = of_nat (length (rv_citations rv)) / of_int (age current_year year)"
       "an_refereed_citations m = of_nat (length refs) / of_int (age current_year year)"
    by blast
  have t: "take 4 (take 4 (rv_bibcode rv)) = take 4 (rv_bibcode rv)" by simp
  have "publication_year (take 4 (rv_bibcode rv)) = publication_year (rv_bibcode rv)"
    unfolding publication_year_def t by (rule refl)
  with y m show ?thesis by (simp add: age_def)
qed

theorem age_normalised_counts_witness:
  "row_view_to_metrics 2017 t2_lookup t2 = Inr t2_expected
   \<and> publication_year (take 4 (rv_bibcode t2)) = Inr 1997
   \<and> an_citations t2_expected = 3 / 21
   \<and> an_refereed_citations t2_expected = 2 / 21"
  using t2_metrics age_normalised_counts[OF t2_metrics] publication_year_t2
  by (auto simp: t2_expected_def)

end
